theory Spec2Isabelle
  imports Complex_Main "HOL-Library.Log_Nat"
begin

section \<open>Numbers and financial rounding (utils/calculations.js)\<close>

text \<open>
  A JavaScript number is an IEEE 754 double. Its value is a rational, so the type of numbers
  is \<open>rat\<close>; \<open>NaN\<close> and the infinities are outside the model. The comparisons, the sign
  tests, \<open>Math.min\<close> and \<open>Math.round\<close> are exact on doubles; a sum, a difference, a product
  or a quotient is the double nearest to the exact result, which section
  \<open>Double-precision arithmetic\<close> defines as \<open>fl\<close>.

  The functions that the theorems on the allocation of payments, on the stock guards and
  on the recomputation of the paid amount are about are given on the exact values: there
  every sum, difference and product is the exact one. Every other function is given as
  JavaScript evaluates it, each arithmetic operation followed by \<open>fl\<close>; where a function
  exists in both forms, the second one carries the suffix \<open>_double\<close>.
  A field that may be absent (\<open>undefined\<close>, \<open>null\<close>) is an \<open>option\<close>.
\<close>

type_synonym number = rat

text \<open>\<open>x || 0\<close> on a number that may be absent: an absent value and \<open>0\<close> both give \<open>0\<close>.\<close>

definition orZero :: "number option \<Rightarrow> number" where
  "orZero v = (case v of None \<Rightarrow> 0 | Some n \<Rightarrow> n)"

definition PRECISION :: number where
  "PRECISION = 100"

text \<open>\<open>Math.round\<close>: the nearest integer, a tie going to the larger one.\<close>

definition mathRound :: "number \<Rightarrow> int" where
  "mathRound x = \<lfloor>x + 1 / 2\<rfloor>"




section \<open>Double-precision arithmetic\<close>

text \<open>
  The binary64 format has 53 significant bits. A number \<open>x\<close> with
  \<open>2^e \<le> |x| < 2^(e+1)\<close> is rounded on the grid of the multiples of \<open>2^(e-52)\<close>, and
  on the grid \<open>2^(-1074)\<close> of the subnormal numbers when \<open>e < -1022\<close>; the rounding is to
  the nearest point of the grid, a tie going to the point with an even multiplier.
  Overflow (\<open>|x| \<ge> 2^1024\<close>, the result \<open>Infinity\<close>) is outside the model.
\<close>

text \<open>The nearest integer, a tie going to the even one.\<close>

definition roundEven :: "rat \<Rightarrow> int" where
  "roundEven y =
     (let f = \<lfloor>y\<rfloor>; r = y - of_int f
      in if r < 1 / 2 then f else if 1 / 2 < r then f + 1 else if even f then f else f + 1)"

text \<open>
  The binary exponent of a positive number: the \<open>e\<close> with \<open>2^e \<le> x < 2^(e+1)\<close>, found
  from the bit lengths of the numerator and of the denominator.
\<close>

definition exposant :: "rat \<Rightarrow> int" where
  "exposant x =
     (case quotient_of x of
        (a, b) \<Rightarrow> (let k = bitlen a - bitlen b in if 2 powi k \<le> x then k else k - 1))"

text \<open>Rounding on the grid that belongs to the exponent \<open>e\<close>.\<close>

definition fl_avec :: "int \<Rightarrow> rat \<Rightarrow> rat" where
  "fl_avec e x =
     (let q = 2 powi (max e (- 1022) - 52)
      in sgn x * (of_int (roundEven (\<bar>x\<bar> / q)) * q))"

text \<open>The double nearest to \<open>x\<close>.\<close>

definition fl :: "rat \<Rightarrow> rat" where
  "fl x = (if x = 0 then 0 else fl_avec (exposant \<bar>x\<bar>) x)"

text \<open>
  \<open>roundFinancial\<close> as it is evaluated: \<open>Math.round(number * PRECISION) / PRECISION\<close>, the
  product and the quotient being operations on doubles.
\<close>

definition roundFinancial_double :: "number \<Rightarrow> number" where
  "roundFinancial_double n = fl (of_int (mathRound (fl (n * PRECISION))) / PRECISION)"

text \<open>
  A value of JavaScript that may be \<open>undefined\<close> or \<open>null\<close>, where the code tells the two
  apart: a default parameter value replaces \<open>undefined\<close> only.
\<close>

datatype 'a js = Undefined | Null | Valeur 'a

definition parDefaut :: "'a \<Rightarrow> 'a js \<Rightarrow> 'a js" where
  "parDefaut d v = (case v of Undefined \<Rightarrow> Valeur d | Null \<Rightarrow> Null | Valeur x \<Rightarrow> Valeur x)"

text \<open>
  \<open>calculateHT\<close> is reached only through \<open>calculateTaxAmount\<close> with \<open>fromType\<close> other
  than \<open>'HT'\<close>; a tax rate of \<open>-100\<close> makes it divide by zero (\<open>Infinity\<close> in JavaScript,
  outside the model).
\<close>

definition calculateHT :: "number \<Rightarrow> number \<Rightarrow> number" where
  "calculateHT amountTTC taxRate =
     roundFinancial_double (fl (amountTTC / fl (1 + fl (taxRate / 100))))"

text \<open>The parameter \<open>fromType\<close> has the default value \<open>'HT'\<close>.\<close>

definition calculateTaxAmount :: "number \<Rightarrow> number \<Rightarrow> string js \<Rightarrow> number" where
  "calculateTaxAmount amount taxRate fromType =
     (if parDefaut ''HT'' fromType = Valeur ''HT''
      then roundFinancial_double (fl (amount * fl (taxRate / 100)))
      else roundFinancial_double (fl (amount - calculateHT amount taxRate)))"

text \<open>The parameter \<open>discountType\<close> has the default value \<open>'Pourcentage'\<close>.\<close>

definition calculateDiscountAmount :: "number \<Rightarrow> number \<Rightarrow> string js \<Rightarrow> number" where
  "calculateDiscountAmount baseAmount discountValue discountType =
     (let discountAmount =
            (if parDefaut ''Pourcentage'' discountType = Valeur ''Pourcentage''
             then fl (baseAmount * fl (discountValue / 100))
             else discountValue)
      in roundFinancial_double discountAmount)"


section \<open>CalculService (services/calculService.js)\<close>

text \<open>
  A line is a plain object: \<open>quantite\<close>, \<open>prixUnitaireHT\<close>, \<open>tauxTVA\<close> and
  \<open>remise.valeur\<close> are read through \<open>|| 0\<close>, so that an absent value and \<open>0\<close> are the
  same; \<open>remise.type\<close> is passed on as it is.
\<close>

record remise =
  r_type :: "string js"
  r_valeur :: "number option"

record ligne =
  l_quantite :: "number option"
  l_prixUnitaireHT :: "number option"
  l_tauxTVA :: "number option"
  l_remise :: "remise option"

record totaux =
  totalHT :: number
  totalRemise :: number
  totalTVA :: number
  totalTTC :: number

record acc_totaux =
  acc_totalHT :: number
  acc_totalRemise :: number
  acc_totalTVA :: number


text \<open>\<open>ligne.remise?.valeur\<close> and \<open>ligne.remise?.type\<close>.\<close>

definition remise_valeur :: "ligne \<Rightarrow> number option" where
  "remise_valeur l = (case l_remise l of None \<Rightarrow> None | Some r \<Rightarrow> r_valeur r)"

definition remise_type :: "ligne \<Rightarrow> string js" where
  "remise_type l = (case l_remise l of None \<Rightarrow> Undefined | Some r \<Rightarrow> r_type r)"

text \<open>
  The callback of \<open>lignes.reduce\<close> in \<open>calculerTotauxDocument\<close>; \<open>calculateTaxAmount\<close> is
  called with two arguments.
\<close>

definition reduceLigne :: "acc_totaux \<Rightarrow> ligne \<Rightarrow> acc_totaux" where
  "reduceLigne acc l =
     (let totalLigneHT =
            roundFinancial_double (fl (orZero (l_quantite l) * orZero (l_prixUnitaireHT l)));
          montantRemiseLigne =
            calculateDiscountAmount totalLigneHT (orZero (remise_valeur l)) (remise_type l);
          totalLigneApresRemiseHT = fl (totalLigneHT - montantRemiseLigne);
          montantTVALigne =
            calculateTaxAmount totalLigneApresRemiseHT (orZero (l_tauxTVA l)) Undefined
      in \<lparr>acc_totalHT = fl (acc_totalHT acc + totalLigneHT),
          acc_totalRemise = fl (acc_totalRemise acc + montantRemiseLigne),
          acc_totalTVA = fl (acc_totalTVA acc + montantTVALigne)\<rparr>)"

text \<open>An argument that is absent or not an array is \<open>None\<close>.\<close>

definition calculerTotauxDocument :: "ligne list option \<Rightarrow> totaux" where
  "calculerTotauxDocument lignes =
     (case lignes of
        None \<Rightarrow> \<lparr>totalHT = 0, totalRemise = 0, totalTVA = 0, totalTTC = 0\<rparr>
      | Some ls \<Rightarrow>
          (let t = foldl reduceLigne
                     \<lparr>acc_totalHT = 0, acc_totalRemise = 0, acc_totalTVA = 0\<rparr> ls;
               ttc = fl (fl (acc_totalHT t - acc_totalRemise t) + acc_totalTVA t)
           in \<lparr>totalHT = roundFinancial_double (acc_totalHT t),
               totalRemise = roundFinancial_double (acc_totalRemise t),
               totalTVA = roundFinancial_double (acc_totalTVA t),
               totalTTC = roundFinancial_double ttc\<rparr>))"







definition calculerNouveauCump ::
  "number option \<Rightarrow> number option \<Rightarrow> number option \<Rightarrow> number option \<Rightarrow> number"
where
  "calculerNouveauCump stockInitialQuantite stockInitialCoutTotal entreeQuantite entreeCoutUnitaire =
     (let nouveauStockQuantite = fl (orZero stockInitialQuantite + orZero entreeQuantite)
      in if nouveauStockQuantite = 0 then 0
         else
           (let entreeCoutTotal = fl (orZero entreeQuantite * orZero entreeCoutUnitaire);
                nouveauCoutTotal = fl (orZero stockInitialCoutTotal + entreeCoutTotal);
                nouveauCump = fl (nouveauCoutTotal / nouveauStockQuantite)
            in roundFinancial_double nouveauCump))"


section \<open>Errors\<close>

text \<open>
  Every \<open>throw new Error(...)\<close> of the services and hooks is a constructor, named after
  the condition its message describes; \<open>UnbalancedEntry\<close> carries the two totals that the
  message prints. \<open>ValidationError\<close> is the rejection of a document by a validator that its
  schema declares on a numeric field (the path and the offending value),
  \<open>SchemaValidation\<close> the rejection of a document by the validators of required fields and
  of array length (the paths that fail), \<open>DuplicateKey\<close> the refusal of an insertion by a
  unique index.
\<close>

datatype error =
    UnbalancedEntry number number
  | ZeroTotalEntry
  | AlreadyPosted string
  | MissingJournal
  | MissingAccounts
  | MissingData
  | ProduitNonTrouve
  | NoStockAtLocation nat
  | InsufficientStock
  | NegativeStock
  | ValidationError string number
  | SchemaValidation "string list"
  | DuplicateKey string


section \<open>Documents and collections (models)\<close>

text \<open>
  A Mongoose document is a record, an \<open>ObjectId\<close> a natural number, a date a natural
  number, a collection a map from identifiers to documents or, where the order of insertion
  is observable, a list. The identifier that \<open>new Model(...)\<close> generates is an argument
  of the model. A \<open>save\<close> validates the document against its schema before it runs the
  pre-save hooks that the schema registers. Of that validation the model has, for
  \<open>EcritureComptable\<close>, the required fields and the length validator of \<open>mouvements\<close>,
  and the validators that guard the amounts the services compute with: \<open>min: 0\<close> on the
  stock quantities of \<open>Produit\<close>, the non-zero \<open>quantite\<close> of \<open>MouvementStock\<close> and
  \<open>min: 0.01\<close> on the \<open>montant\<close> of \<open>Paiement\<close>. The other checks of \<open>Produit\<close>,
  \<open>MouvementStock\<close>, \<open>Facture\<close> and \<open>Paiement\<close> (required fields, enumerations) are
  not modelled: these documents are taken to be well formed in these respects.
\<close>

subsection \<open>EcritureComptable\<close>

record mouvement_comptable =
  mc_compte :: nat
  mc_libelle :: string
  mc_debit :: "number option"
  mc_credit :: "number option"

record document_origine =
  do_documentId :: nat
  do_documentModel :: string
  do_documentNumero :: string

record ecriture =
  e_id :: nat
  e_numeroPiece :: string
  e_dateEcriture :: nat
  e_journal :: nat
  e_libelle :: string
  e_mouvements :: "mouvement_comptable list"
  e_totalDebit :: "number option"
  e_totalCredit :: "number option"
  e_documentOrigine :: document_origine
  e_creePar :: nat

subsection \<open>Facture, Achat, Parametres\<close>

datatype statut_facture = Brouillon | Envoyee | PartiellementPayee | Payee | EnRetard | Annulee

record client =
  c_nom :: string
  c_compteComptableAssocie :: "nat option"

record ligne_facture =
  lf_quantite :: number
  lf_prixUnitaireHT :: number
  lf_tauxTVA :: number
  lf_remiseType :: string
  lf_remiseValeur :: number

record facture =
  f_id :: nat
  f_numero :: string
  f_client :: client
  f_dateEmission :: nat
  f_dateEcheance :: nat
  f_lignes :: "ligne_facture list"
  f_totalHT :: number
  f_totalRemise :: number
  f_totalTVA :: number
  f_totalTTC :: number
  f_montantPaye :: number
  f_statut :: statut_facture
  f_comptabilise :: bool
  f_journalComptable :: "nat option"

record achat =
  a_numero :: string
  a_totalTTC :: number
  a_montantPaye :: number

text \<open>
  The settings document. Its schema declares the three default journals and no account:
  \<open>compteClientsDefaut\<close>, \<open>compteVentesDefaut\<close> and \<open>compteTVAVenteDefaut\<close>, which
  \<open>ComptabiliteService\<close> reads (with the remark "A ajouter dans Parametres"), are not
  paths of the schema.
\<close>

record parametres =
  journalVentesParDefaut :: "nat option"
  journalAchatsParDefaut :: "nat option"
  journalTresorerieParDefaut :: "nat option"

subsection \<open>Produit, MouvementStock\<close>

record stock_depot =
  sd_depot :: nat
  sd_quantite :: number

record produit =
  p_designation :: string
  p_gestionStock :: bool
  p_quantiteEnStock :: number
  p_stockParDepot :: "stock_depot list"
  p_prixAchat :: number

record document_lie =
  dl_id :: nat
  dl_type :: string
  dl_numero :: "string option"

record mouvement_stock =
  ms_id :: nat
  ms_produit :: nat
  ms_depot :: nat
  ms_quantite :: number
  ms_typeMouvement :: string
  ms_documentLie :: document_lie
  ms_coutUnitaire :: number
  ms_valeurMouvement :: "number option"
  ms_realisePar :: nat

subsection \<open>Paiement\<close>

datatype statut_paiement = EnAttente | Valide | Annule | Echoue

datatype modele_document = ModeleFacture | ModeleAchat

record paiement =
  pa_id :: nat
  pa_numeroPaiement :: string
  pa_montant :: number
  pa_statut :: statut_paiement
  pa_documentId :: nat
  pa_documentModel :: modele_document

subsection \<open>The database\<close>

record base =
  ecritures :: "ecriture list"
  factures :: "nat \<rightharpoonup> facture"
  achats :: "nat \<rightharpoonup> achat"
  parametres :: "parametres option"
  produits :: "nat \<rightharpoonup> produit"
  mouvementsStock :: "mouvement_stock list"
  paiements :: "paiement list"


section \<open>EcritureComptable: validation, the pre-save hook and the posting service\<close>

text \<open>
  The document is the one that \<open>new EcritureComptable(data)\<close> builds: \<open>totalDebit\<close> and
  \<open>totalCredit\<close> are absent unless \<open>data\<close> carries them.

  The validation of the schema: \<open>numeroPiece\<close> and \<open>libelle\<close> (trimmed) are required, a
  required string being refused when it is empty; \<open>mouvements\<close> must have at least two
  elements; the \<open>libelle\<close> (trimmed) of every line is required; \<open>totalDebit\<close> and
  \<open>totalCredit\<close> are required. \<open>journal\<close>, \<open>creePar\<close> and the \<open>compte\<close> of a line
  are required too and are present in every document of the model; \<open>dateEcriture\<close> has a
  default. The function that the line schema carries under the key \<open>validate\<close> of its
  options is not a validator of a path and is never called. The result is the list of the
  paths that fail.
\<close>

definition blanc :: "char \<Rightarrow> bool" where
  "blanc c = (c = CHR '' '' \<or> c = CHR 0x09 \<or> c = CHR 0x0A \<or> c = CHR 0x0D)"

definition ecriture_valider :: "ecriture \<Rightarrow> string list" where
  "ecriture_valider e =
     (if e_numeroPiece e = [] then [''numeroPiece''] else [])
     @ (if list_all blanc (e_libelle e) then [''libelle''] else [])
     @ (if 2 \<le> length (e_mouvements e) then [] else [''mouvements''])
     @ (if list_all (\<lambda>m. \<not> list_all blanc (mc_libelle m)) (e_mouvements e) then []
        else [''mouvements.libelle''])
     @ (case e_totalDebit e of None \<Rightarrow> [''totalDebit''] | Some t \<Rightarrow> [])
     @ (case e_totalCredit e of None \<Rightarrow> [''totalCredit''] | Some t \<Rightarrow> [])"

text \<open>
  The \<open>forEach\<close> of the hook adds \<open>m.debit || 0\<close> and \<open>m.credit || 0\<close> to the two
  running totals.
\<close>

definition cumulerMouvement :: "number \<times> number \<Rightarrow> mouvement_comptable \<Rightarrow> number \<times> number" where
  "cumulerMouvement t m =
     (fl (fst t + orZero (mc_debit m)), fl (snd t + orZero (mc_credit m)))"

definition ecriture_preSave :: "ecriture \<Rightarrow> error + ecriture" where
  "ecriture_preSave this =
     (let t = foldl cumulerMouvement (0, 0) (e_mouvements this);
          totalDebit = fl (of_int (mathRound (fl (fst t * 100))) / 100);
          totalCredit = fl (of_int (mathRound (fl (snd t * 100))) / 100)
      in if totalDebit \<noteq> totalCredit then Inl (UnbalancedEntry totalDebit totalCredit)
         else if totalDebit = 0 then Inl ZeroTotalEntry
         else Inr (this\<lparr>e_totalDebit := Some totalDebit, e_totalCredit := Some totalCredit\<rparr>))"

text \<open>
  \<open>ecriture.save({ session })\<close>: the validation, then the hook, then the insertion, which
  the unique index on \<open>numeroPiece\<close> refuses when a stored entry has the same number.
\<close>

definition ecriture_save :: "ecriture \<Rightarrow> base \<Rightarrow> (error + ecriture) \<times> base" where
  "ecriture_save e db =
     (case ecriture_valider e of
        chemin # chemins \<Rightarrow> (Inl (SchemaValidation (chemin # chemins)), db)
      | [] \<Rightarrow>
          (case ecriture_preSave e of
             Inl err \<Rightarrow> (Inl err, db)
           | Inr e' \<Rightarrow>
               if e_numeroPiece e' \<in> set (map e_numeroPiece (ecritures db))
               then (Inl (DuplicateKey ''numeroPiece''), db)
               else (Inr e', db\<lparr>ecritures := ecritures db @ [e']\<rparr>)))"

text \<open>
  \<open>_creerEcriture\<close>: the transaction commits what the save wrote, or aborts and leaves the
  database as it was before \<open>startTransaction\<close>, and the error is thrown again.
\<close>

definition creerEcriture :: "ecriture \<Rightarrow> base \<Rightarrow> (error + ecriture) \<times> base" where
  "creerEcriture data db =
     (case ecriture_save data db of
        (Inr ecriture, db') \<Rightarrow> (Inr ecriture, db')
      | (Inl err, db') \<Rightarrow> (Inl err, db))"

subsection \<open>Facture: virtuals, pre-save hook, save\<close>







subsection \<open>ComptabiliteService.comptabiliserFactureVente\<close>







section \<open>Produit: schema validators, save and the static mettreAJourStock\<close>

text \<open>
  This section and the two that follow give the stock functions on exact values; section
  \<open>The stock functions in double arithmetic\<close> gives them as they are evaluated.
\<close>

text \<open>
  The \<open>Produit\<close> schema declares \<open>min: 0\<close> on \<open>quantiteEnStock\<close> and on the \<open>quantite\<close>
  of every \<open>stockParDepot\<close> entry. A \<open>save\<close> of a product runs these validators and
  rejects the document, writing nothing, when one of them fails.
\<close>

definition produit_valider :: "produit \<Rightarrow> error option" where
  "produit_valider p =
     (if p_quantiteEnStock p < 0
      then Some (ValidationError ''quantiteEnStock'' (p_quantiteEnStock p))
      else (case List.find (\<lambda>d. sd_quantite d < 0) (p_stockParDepot p) of
              Some d \<Rightarrow> Some (ValidationError ''stockParDepot.quantite'' (sd_quantite d))
            | None \<Rightarrow> None))"

definition produit_save :: "nat \<Rightarrow> produit \<Rightarrow> base \<Rightarrow> (error + produit) \<times> base" where
  "produit_save produitId p db =
     (case produit_valider p of
        Some err \<Rightarrow> (Inl err, db)
      | None \<Rightarrow> (Inr p, db\<lparr>produits := (produits db)(produitId \<mapsto> p)\<rparr>))"

text \<open>\<open>produit.stockParDepot.find(d => d.depot.toString() === depotId.toString())\<close>.\<close>

definition trouverDepot :: "nat \<Rightarrow> produit \<Rightarrow> stock_depot option" where
  "trouverDepot depotId p = List.find (\<lambda>d. sd_depot d = depotId) (p_stockParDepot p)"

text \<open>
  \<open>depotStock.quantite += quantite\<close>: \<open>depotStock\<close> is the entry that \<open>find\<close> returned,
  the first one of the warehouse, and it is updated in place.
\<close>

fun ajouterAuDepot :: "nat \<Rightarrow> number \<Rightarrow> stock_depot list \<Rightarrow> stock_depot list" where
  "ajouterAuDepot depotId quantite [] = []"
| "ajouterAuDepot depotId quantite (d # ds) =
     (if sd_depot d = depotId then d\<lparr>sd_quantite := sd_quantite d + quantite\<rparr> # ds
      else d # ajouterAuDepot depotId quantite ds)"

text \<open>
  The body of \<open>mettreAJourStock\<close> between \<open>findById\<close> and \<open>produit.save()\<close>: the thrown
  error, or the document that is handed to \<open>save\<close>. The test on \<open>depotStock\<close> reads the
  variable bound by \<open>find\<close> before the \<open>push\<close>.
\<close>

definition mettreAJourStock_document :: "produit \<Rightarrow> nat \<Rightarrow> number \<Rightarrow> error + produit" where
  "mettreAJourStock_document produit depotId quantite =
     (let depotStock = trouverDepot depotId produit;
          produit1 = produit\<lparr>p_quantiteEnStock := p_quantiteEnStock produit + quantite\<rparr>;
          produit2 =
            (case depotStock of
               Some d \<Rightarrow>
                 produit1\<lparr>p_stockParDepot :=
                            ajouterAuDepot depotId quantite (p_stockParDepot produit1)\<rparr>
             | None \<Rightarrow>
                 produit1\<lparr>p_stockParDepot :=
                            p_stockParDepot produit1
                              @ [\<lparr>sd_depot = depotId, sd_quantite = quantite\<rparr>]\<rparr>)
      in if p_quantiteEnStock produit2 < 0
            \<or> (case depotStock of Some d \<Rightarrow> sd_quantite d + quantite < 0 | None \<Rightarrow> False)
         then Inl NegativeStock
         else Inr produit2)"

definition mettreAJourStock :: "nat \<Rightarrow> nat \<Rightarrow> number \<Rightarrow> base \<Rightarrow> (error + produit) \<times> base" where
  "mettreAJourStock produitId depotId quantite db =
     (case produits db produitId of
        None \<Rightarrow> (Inl ProduitNonTrouve, db)
      | Some produit \<Rightarrow>
          (case mettreAJourStock_document produit depotId quantite of
             Inl err \<Rightarrow> (Inl err, db)
           | Inr produit' \<Rightarrow> produit_save produitId produit' db))"


section \<open>MouvementStock: validator, pre-save hook, save\<close>

text \<open>
  \<open>mouvement.save()\<close>: the validator of \<open>quantite\<close> (\<open>v !== 0\<close>), then the pre-save hook,
  then the write. For a new document the hook sets \<open>valeurMouvement\<close> and calls
  \<open>Produit.mettreAJourStock\<close>; an error of that call is passed to \<open>next\<close> and the movement
  is not saved. A document that is not new is written over its stored version.
\<close>

definition mouvementStock_preSave ::
  "bool \<Rightarrow> mouvement_stock \<Rightarrow> base \<Rightarrow> (error + mouvement_stock) \<times> base"
where
  "mouvementStock_preSave isNew this db =
     (if isNew
      then
        (let this1 = this\<lparr>ms_valeurMouvement := Some (ms_quantite this * ms_coutUnitaire this)\<rparr>
         in case mettreAJourStock (ms_produit this1) (ms_depot this1) (ms_quantite this1) db of
              (Inl err, db') \<Rightarrow> (Inl err, db')
            | (Inr produit, db') \<Rightarrow> (Inr this1, db'))
      else (Inr this, db))"

definition mouvementStock_save ::
  "bool \<Rightarrow> mouvement_stock \<Rightarrow> base \<Rightarrow> (error + mouvement_stock) \<times> base"
where
  "mouvementStock_save isNew m db =
     (if ms_quantite m = 0 then (Inl (ValidationError ''quantite'' 0), db)
      else
        (case mouvementStock_preSave isNew m db of
           (Inl err, db') \<Rightarrow> (Inl err, db')
         | (Inr m', db') \<Rightarrow>
             (Inr m',
              db'\<lparr>mouvementsStock :=
                    (if isNew then mouvementsStock db' @ [m']
                     else map (\<lambda>x. if ms_id x = ms_id m' then m' else x)
                            (mouvementsStock db'))\<rparr>)))"


section \<open>StockService._creerMouvement\<close>

record document_source =
  ds_id :: nat
  ds_modelName :: string
  ds_numero :: "string option"
  ds_numeroVente :: "string option"
  ds_numeroAchat :: "string option"

record donnees_mouvement =
  dm_produitId :: "nat option"
  dm_depotId :: "nat option"
  dm_quantite :: "number option"
  dm_typeMouvement :: "string option"
  dm_documentLie :: "document_source option"
  dm_userId :: "nat option"

text \<open>\<open>a || b\<close> on two strings that may be absent: the empty string is falsy too.\<close>

definition chaineOu :: "string option \<Rightarrow> string option \<Rightarrow> string option" where
  "chaineOu a b = (case a of None \<Rightarrow> b | Some s \<Rightarrow> (if s = [] then b else Some s))"

text \<open>\<open>new MouvementStock({ ... })\<close> in \<open>_creerMouvement\<close>, for the product as it was saved.\<close>

definition nouveauMouvementStock ::
  "nat \<Rightarrow> nat \<Rightarrow> nat \<Rightarrow> number \<Rightarrow> string \<Rightarrow> document_source \<Rightarrow> nat \<Rightarrow> produit
     \<Rightarrow> mouvement_stock"
where
  "nouveauMouvementStock idMouvement produitId depotId quantite typeMouvement documentLie userId
       produit =
     \<lparr>ms_id = idMouvement,
      ms_produit = produitId,
      ms_depot = depotId,
      ms_quantite = quantite,
      ms_typeMouvement = typeMouvement,
      ms_documentLie =
        \<lparr>dl_id = ds_id documentLie,
         dl_type = ds_modelName documentLie,
         dl_numero =
           chaineOu (chaineOu (ds_numero documentLie) (ds_numeroVente documentLie))
             (ds_numeroAchat documentLie)\<rparr>,
      ms_coutUnitaire = p_prixAchat produit,
      ms_valeurMouvement = Some (quantite * p_prixAchat produit),
      ms_realisePar = userId\<rparr>"

text \<open>
  The body of the \<open>try\<close> block, on the state of the open transaction. The result
  \<open>Inr None\<close> is the \<open>return null\<close> for a product without stock management. The writes
  of the session are visible to the read of \<open>mettreAJourStock\<close> that the save of the
  movement triggers, so that a call that succeeds has applied the quantity twice: once in
  the service, once in the hook.
\<close>

definition creerMouvement_transaction ::
  "nat \<Rightarrow> nat \<Rightarrow> nat \<Rightarrow> number \<Rightarrow> string \<Rightarrow> document_source \<Rightarrow> nat \<Rightarrow> base
     \<Rightarrow> (error + mouvement_stock option) \<times> base"
where
  "creerMouvement_transaction idMouvement produitId depotId quantite typeMouvement documentLie
       userId db =
     (case produits db produitId of
        None \<Rightarrow> (Inl ProduitNonTrouve, db)
      | Some produit \<Rightarrow>
          if \<not> p_gestionStock produit then (Inr None, db)
          else
            (let produit1 = produit\<lparr>p_quantiteEnStock := p_quantiteEnStock produit + quantite\<rparr>;
                 depotStock = trouverDepot depotId produit1
             in case (case depotStock of
                        Some d \<Rightarrow>
                          Inr (produit1\<lparr>p_stockParDepot :=
                                 ajouterAuDepot depotId quantite (p_stockParDepot produit1)\<rparr>)
                      | None \<Rightarrow>
                          if quantite > 0
                          then Inr (produit1\<lparr>p_stockParDepot :=
                                      p_stockParDepot produit1
                                        @ [\<lparr>sd_depot = depotId, sd_quantite = quantite\<rparr>]\<rparr>)
                          else Inl (NoStockAtLocation depotId)) of
                  Inl err \<Rightarrow> (Inl err, db)
                | Inr produit2 \<Rightarrow>
                    if p_quantiteEnStock produit2 < 0
                       \<or> (case depotStock of Some d \<Rightarrow> sd_quantite d + quantite < 0
                           | None \<Rightarrow> False)
                    then (Inl InsufficientStock, db)
                    else
                      (case produit_save produitId produit2 db of
                         (Inl err, db1) \<Rightarrow> (Inl err, db1)
                       | (Inr produit3, db1) \<Rightarrow>
                           (case mouvementStock_save True
                                   (nouveauMouvementStock idMouvement produitId depotId quantite
                                      typeMouvement documentLie userId produit3) db1 of
                              (Inl err, db2) \<Rightarrow> (Inl err, db2)
                            | (Inr mouvementCree, db2) \<Rightarrow> (Inr (Some mouvementCree), db2)))))"

text \<open>
  \<open>_creerMouvement\<close>: the guard on the arguments (\<open>!quantite\<close> holds for an absent
  quantity and for \<open>0\<close>, \<open>!typeMouvement\<close> for an absent or empty string), then the
  transaction. Only \<open>commitTransaction\<close> makes the writes of the body durable: after an
  error (\<open>abortTransaction\<close>) and after \<open>return null\<close> (the session ends without a commit)
  the database is the one before the call.
\<close>

definition creerMouvement ::
  "nat \<Rightarrow> donnees_mouvement \<Rightarrow> base \<Rightarrow> (error + mouvement_stock option) \<times> base"
where
  "creerMouvement idMouvement a db =
     (case (dm_produitId a, dm_depotId a, dm_quantite a, dm_typeMouvement a, dm_documentLie a,
            dm_userId a) of
        (Some produitId, Some depotId, Some quantite, Some typeMouvement, Some documentLie,
         Some userId) \<Rightarrow>
          if quantite = 0 \<or> typeMouvement = [] then (Inl MissingData, db)
          else
            (case creerMouvement_transaction idMouvement produitId depotId quantite
                    typeMouvement documentLie userId db of
               (Inr (Some mouvementCree), db') \<Rightarrow> (Inr (Some mouvementCree), db')
             | (Inr None, db') \<Rightarrow> (Inr None, db)
             | (Inl err, db') \<Rightarrow> (Inl err, db))
      | _ \<Rightarrow> (Inl MissingData, db))"


section \<open>The stock functions in double arithmetic\<close>

text \<open>
  The same functions with \<open>+=\<close> and \<open>*\<close> as operations on doubles. \<open>produit_save\<close>,
  \<open>trouverDepot\<close> and \<open>chaineOu\<close> do no arithmetic and are shared. The pre-save hook of
  \<open>MouvementStock\<close> calls \<open>Produit.mettreAJourStock\<close> without the session of the
  service; the model is sequential, and the product that the hook reads is the one that
  the service has saved.
\<close>

fun ajouterAuDepot_double :: "nat \<Rightarrow> number \<Rightarrow> stock_depot list \<Rightarrow> stock_depot list" where
  "ajouterAuDepot_double depotId quantite [] = []"
| "ajouterAuDepot_double depotId quantite (d # ds) =
     (if sd_depot d = depotId then d\<lparr>sd_quantite := fl (sd_quantite d + quantite)\<rparr> # ds
      else d # ajouterAuDepot_double depotId quantite ds)"

definition mettreAJourStock_document_double :: "produit \<Rightarrow> nat \<Rightarrow> number \<Rightarrow> error + produit" where
  "mettreAJourStock_document_double produit depotId quantite =
     (let depotStock = trouverDepot depotId produit;
          produit1 = produit\<lparr>p_quantiteEnStock := fl (p_quantiteEnStock produit + quantite)\<rparr>;
          produit2 =
            (case depotStock of
               Some d \<Rightarrow>
                 produit1\<lparr>p_stockParDepot :=
                            ajouterAuDepot_double depotId quantite (p_stockParDepot produit1)\<rparr>
             | None \<Rightarrow>
                 produit1\<lparr>p_stockParDepot :=
                            p_stockParDepot produit1
                              @ [\<lparr>sd_depot = depotId, sd_quantite = quantite\<rparr>]\<rparr>)
      in if p_quantiteEnStock produit2 < 0
            \<or> (case depotStock of Some d \<Rightarrow> fl (sd_quantite d + quantite) < 0 | None \<Rightarrow> False)
         then Inl NegativeStock
         else Inr produit2)"

definition mettreAJourStock_double ::
  "nat \<Rightarrow> nat \<Rightarrow> number \<Rightarrow> base \<Rightarrow> (error + produit) \<times> base"
where
  "mettreAJourStock_double produitId depotId quantite db =
     (case produits db produitId of
        None \<Rightarrow> (Inl ProduitNonTrouve, db)
      | Some produit \<Rightarrow>
          (case mettreAJourStock_document_double produit depotId quantite of
             Inl err \<Rightarrow> (Inl err, db)
           | Inr produit' \<Rightarrow> produit_save produitId produit' db))"

definition mouvementStock_preSave_double ::
  "bool \<Rightarrow> mouvement_stock \<Rightarrow> base \<Rightarrow> (error + mouvement_stock) \<times> base"
where
  "mouvementStock_preSave_double isNew this db =
     (if isNew
      then
        (let this1 =
               this\<lparr>ms_valeurMouvement := Some (fl (ms_quantite this * ms_coutUnitaire this))\<rparr>
         in case mettreAJourStock_double (ms_produit this1) (ms_depot this1) (ms_quantite this1)
                   db of
              (Inl err, db') \<Rightarrow> (Inl err, db')
            | (Inr produit, db') \<Rightarrow> (Inr this1, db'))
      else (Inr this, db))"

definition mouvementStock_save_double ::
  "bool \<Rightarrow> mouvement_stock \<Rightarrow> base \<Rightarrow> (error + mouvement_stock) \<times> base"
where
  "mouvementStock_save_double isNew m db =
     (if ms_quantite m = 0 then (Inl (ValidationError ''quantite'' 0), db)
      else
        (case mouvementStock_preSave_double isNew m db of
           (Inl err, db') \<Rightarrow> (Inl err, db')
         | (Inr m', db') \<Rightarrow>
             (Inr m',
              db'\<lparr>mouvementsStock :=
                    (if isNew then mouvementsStock db' @ [m']
                     else map (\<lambda>x. if ms_id x = ms_id m' then m' else x)
                            (mouvementsStock db'))\<rparr>)))"

definition nouveauMouvementStock_double ::
  "nat \<Rightarrow> nat \<Rightarrow> nat \<Rightarrow> number \<Rightarrow> string \<Rightarrow> document_source \<Rightarrow> nat \<Rightarrow> produit
     \<Rightarrow> mouvement_stock"
where
  "nouveauMouvementStock_double idMouvement produitId depotId quantite typeMouvement documentLie
       userId produit =
     \<lparr>ms_id = idMouvement,
      ms_produit = produitId,
      ms_depot = depotId,
      ms_quantite = quantite,
      ms_typeMouvement = typeMouvement,
      ms_documentLie =
        \<lparr>dl_id = ds_id documentLie,
         dl_type = ds_modelName documentLie,
         dl_numero =
           chaineOu (chaineOu (ds_numero documentLie) (ds_numeroVente documentLie))
             (ds_numeroAchat documentLie)\<rparr>,
      ms_coutUnitaire = p_prixAchat produit,
      ms_valeurMouvement = Some (fl (quantite * p_prixAchat produit)),
      ms_realisePar = userId\<rparr>"

definition creerMouvement_transaction_double ::
  "nat \<Rightarrow> nat \<Rightarrow> nat \<Rightarrow> number \<Rightarrow> string \<Rightarrow> document_source \<Rightarrow> nat \<Rightarrow> base
     \<Rightarrow> (error + mouvement_stock option) \<times> base"
where
  "creerMouvement_transaction_double idMouvement produitId depotId quantite typeMouvement
       documentLie userId db =
     (case produits db produitId of
        None \<Rightarrow> (Inl ProduitNonTrouve, db)
      | Some produit \<Rightarrow>
          if \<not> p_gestionStock produit then (Inr None, db)
          else
            (let produit1 =
                   produit\<lparr>p_quantiteEnStock := fl (p_quantiteEnStock produit + quantite)\<rparr>;
                 depotStock = trouverDepot depotId produit1
             in case (case depotStock of
                        Some d \<Rightarrow>
                          Inr (produit1\<lparr>p_stockParDepot :=
                                 ajouterAuDepot_double depotId quantite
                                   (p_stockParDepot produit1)\<rparr>)
                      | None \<Rightarrow>
                          if quantite > 0
                          then Inr (produit1\<lparr>p_stockParDepot :=
                                      p_stockParDepot produit1
                                        @ [\<lparr>sd_depot = depotId, sd_quantite = quantite\<rparr>]\<rparr>)
                          else Inl (NoStockAtLocation depotId)) of
                  Inl err \<Rightarrow> (Inl err, db)
                | Inr produit2 \<Rightarrow>
                    if p_quantiteEnStock produit2 < 0
                       \<or> (case depotStock of Some d \<Rightarrow> fl (sd_quantite d + quantite) < 0
                           | None \<Rightarrow> False)
                    then (Inl InsufficientStock, db)
                    else
                      (case produit_save produitId produit2 db of
                         (Inl err, db1) \<Rightarrow> (Inl err, db1)
                       | (Inr produit3, db1) \<Rightarrow>
                           (case mouvementStock_save_double True
                                   (nouveauMouvementStock_double idMouvement produitId depotId
                                      quantite typeMouvement documentLie userId produit3) db1 of
                              (Inl err, db2) \<Rightarrow> (Inl err, db2)
                            | (Inr mouvementCree, db2) \<Rightarrow> (Inr (Some mouvementCree), db2)))))"

definition creerMouvement_double ::
  "nat \<Rightarrow> donnees_mouvement \<Rightarrow> base \<Rightarrow> (error + mouvement_stock option) \<times> base"
where
  "creerMouvement_double idMouvement a db =
     (case (dm_produitId a, dm_depotId a, dm_quantite a, dm_typeMouvement a, dm_documentLie a,
            dm_userId a) of
        (Some produitId, Some depotId, Some quantite, Some typeMouvement, Some documentLie,
         Some userId) \<Rightarrow>
          if quantite = 0 \<or> typeMouvement = [] then (Inl MissingData, db)
          else
            (case creerMouvement_transaction_double idMouvement produitId depotId quantite
                    typeMouvement documentLie userId db of
               (Inr (Some mouvementCree), db') \<Rightarrow> (Inr (Some mouvementCree), db')
             | (Inr None, db') \<Rightarrow> (Inr None, db)
             | (Inl err, db') \<Rightarrow> (Inl err, db))
      | _ \<Rightarrow> (Inl MissingData, db))"


section \<open>Paiement: save and the post-save hook\<close>

text \<open>\<open>model.findByIdAndUpdate(documentId, { montantPaye: totalPaye })\<close>.\<close>

definition findByIdAndUpdate_montantPaye :: "modele_document \<Rightarrow> nat \<Rightarrow> number \<Rightarrow> base \<Rightarrow> base" where
  "findByIdAndUpdate_montantPaye model documentId totalPaye db =
     (case model of
        ModeleFacture \<Rightarrow>
          (case factures db documentId of
             None \<Rightarrow> db
           | Some f \<Rightarrow> db\<lparr>factures := (factures db)(documentId \<mapsto> f\<lparr>f_montantPaye := totalPaye\<rparr>)\<rparr>)
      | ModeleAchat \<Rightarrow>
          (case achats db documentId of
             None \<Rightarrow> db
           | Some a \<Rightarrow> db\<lparr>achats := (achats db)(documentId \<mapsto> a\<lparr>a_montantPaye := totalPaye\<rparr>)\<rparr>))"

definition updateDocumentSolde :: "paiement \<Rightarrow> base \<Rightarrow> base" where
  "updateDocumentSolde doc db =
     (if pa_statut doc \<noteq> Valide then db
      else
        (let paiementsValides =
               filter (\<lambda>p. pa_documentId p = pa_documentId doc \<and> pa_statut p = Valide)
                 (paiements db);
             totalPaye = foldl (\<lambda>acc p. acc + pa_montant p) 0 paiementsValides
         in findByIdAndUpdate_montantPaye (pa_documentModel doc) (pa_documentId doc) totalPaye db))"




section \<open>Reference definitions, written from the specification\<close>

text \<open>
  The definitions of this section follow the words of the specification, not the code; the
  theorems compare them with the functions above. They are on exact values.
\<close>

text \<open>Rounding to two decimals, half away from zero.\<close>

definition roundHalfAway :: "number \<Rightarrow> number" where
  "roundHalfAway x = sgn x * of_int \<lfloor>\<bar>x\<bar> * 100 + 1 / 2\<rfloor> / 100"


text \<open>
  The per-line amounts of the totals calculator: \<open>lineExTax\<close>, \<open>discountAmount\<close> (of a
  percentage discount or of an amount discount) and \<open>taxAmount\<close>.
\<close>

definition spec_lineExTax :: "ligne \<Rightarrow> number" where
  "spec_lineExTax l = roundHalfAway (orZero (l_quantite l) * orZero (l_prixUnitaireHT l))"

definition spec_discountAmount :: "ligne \<Rightarrow> number" where
  "spec_discountAmount l =
     (if remise_type l = Valeur ''Pourcentage''
      then roundHalfAway (spec_lineExTax l * orZero (remise_valeur l) / 100)
      else roundHalfAway (orZero (remise_valeur l)))"

definition spec_taxAmount :: "ligne \<Rightarrow> number" where
  "spec_taxAmount l =
     roundHalfAway ((spec_lineExTax l - spec_discountAmount l) * orZero (l_tauxTVA l) / 100)"

text \<open>The weighted-average unit cost.\<close>

definition spec_cump :: "number \<Rightarrow> number \<Rightarrow> number \<Rightarrow> number \<Rightarrow> number" where
  "spec_cump priorQty priorTotalCost inboundQty inboundUnitCost =
     (if priorQty + inboundQty = 0 then 0
      else roundHalfAway ((priorTotalCost + inboundQty * inboundUnitCost)
                            / (priorQty + inboundQty)))"




text \<open>Example data.\<close>

definition ligne_exemple :: ligne where
  "ligne_exemple = \<lparr>l_quantite = Some 3, l_prixUnitaireHT = Some 1000, l_tauxTVA = Some 18,
     l_remise = Some \<lparr>r_type = Valeur ''Pourcentage'', r_valeur = Some 10\<rparr>\<rparr>"

text \<open>One unit at 1.25, no discount, tax at 18 percent.\<close>

definition ligne_flottante :: ligne where
  "ligne_flottante = \<lparr>l_quantite = Some 1, l_prixUnitaireHT = Some (5 / 4), l_tauxTVA = Some 18,
     l_remise = None\<rparr>"



text \<open>
  Example entries and the empty database: a balanced entry (118 against 100 + 18) as the
  posting service builds it, without totals; the same entry without its debit line; the
  same entry with totals supplied by the caller.
\<close>

definition ecriture_exemple :: ecriture where
  "ecriture_exemple =
     \<lparr>e_id = 7, e_numeroPiece = ''FAC-1'', e_dateEcriture = 20, e_journal = 3,
      e_libelle = ''Facture de vente'',
      e_mouvements =
        [\<lparr>mc_compte = 411, mc_libelle = ''client'', mc_debit = Some 118, mc_credit = Some 0\<rparr>,
         \<lparr>mc_compte = 701, mc_libelle = ''vente'', mc_debit = Some 0, mc_credit = Some 100\<rparr>,
         \<lparr>mc_compte = 443, mc_libelle = ''tva'', mc_debit = Some 0, mc_credit = Some 18\<rparr>],
      e_totalDebit = None, e_totalCredit = None,
      e_documentOrigine =
        \<lparr>do_documentId = 1, do_documentModel = ''Facture'', do_documentNumero = ''FAC-1''\<rparr>,
      e_creePar = 9\<rparr>"

definition base_vide :: base where
  "base_vide = \<lparr>ecritures = [], factures = Map.empty, achats = Map.empty, parametres = None,
     produits = Map.empty, mouvementsStock = [], paiements = []\<rparr>"

definition ecriture_desequilibree :: ecriture where
  "ecriture_desequilibree = ecriture_exemple\<lparr>e_mouvements := tl (e_mouvements ecriture_exemple)\<rparr>"

definition ecriture_avec_totaux :: ecriture where
  "ecriture_avec_totaux = ecriture_exemple\<lparr>e_totalDebit := Some 0, e_totalCredit := Some 0\<rparr>"





text \<open>The quantity that a product holds in a warehouse (\<open>0\<close> without a per-warehouse record).\<close>

definition quantiteDepot :: "nat \<Rightarrow> produit \<Rightarrow> number" where
  "quantiteDepot depotId p = (case trouverDepot depotId p of None \<Rightarrow> 0 | Some d \<Rightarrow> sd_quantite d)"

text \<open>
  The two parts of the stock invariant, for one product: no quantity is negative, and the
  total is the sum of the per-warehouse quantities; and a property of every product of the
  database.
\<close>

definition quantites_positives :: "produit \<Rightarrow> bool" where
  "quantites_positives p =
     (0 \<le> p_quantiteEnStock p \<and> list_all (\<lambda>d. 0 \<le> sd_quantite d) (p_stockParDepot p))"

definition total_egal_somme :: "produit \<Rightarrow> bool" where
  "total_egal_somme p =
     (p_quantiteEnStock p = sum_list (map sd_quantite (p_stockParDepot p)))"

definition pour_tout_produit :: "(produit \<Rightarrow> bool) \<Rightarrow> base \<Rightarrow> bool" where
  "pour_tout_produit P db = (\<forall>produitId p. produits db produitId = Some p \<longrightarrow> P p)"

text \<open>
  The sum of the per-warehouse quantities as a \<open>reduce\<close> over \<open>stockParDepot\<close> computes
  it, in double arithmetic.
\<close>

definition sommeDepots_double :: "produit \<Rightarrow> number" where
  "sommeDepots_double p = foldl (\<lambda>s d. fl (s + sd_quantite d)) 0 (p_stockParDepot p)"

text \<open>
  The two additions that apply a quantity to a product are exact: the sum with the total
  and the sum with the quantity of the warehouse are doubles. The product after an exact
  application.
\<close>

definition additions_exactes :: "nat \<Rightarrow> number \<Rightarrow> produit \<Rightarrow> bool" where
  "additions_exactes depotId quantite p =
     (fl (p_quantiteEnStock p + quantite) = p_quantiteEnStock p + quantite
      \<and> fl (quantiteDepot depotId p + quantite) = quantiteDepot depotId p + quantite)"

definition apresAjout :: "nat \<Rightarrow> number \<Rightarrow> produit \<Rightarrow> produit" where
  "apresAjout depotId quantite p =
     p\<lparr>p_quantiteEnStock := p_quantiteEnStock p + quantite,
       p_stockParDepot :=
         (case trouverDepot depotId p of
            Some d \<Rightarrow> ajouterAuDepot depotId quantite (p_stockParDepot p)
          | None \<Rightarrow> p_stockParDepot p @ [\<lparr>sd_depot = depotId, sd_quantite = quantite\<rparr>])\<rparr>"

text \<open>
  The two operations that change stock: a call of \<open>StockService._creerMouvement\<close> and a
  save of a \<open>MouvementStock\<close> document (its pre-save hook); a sequence of them, each run on
  the database that the previous one left.
\<close>

datatype operation = ViaService nat donnees_mouvement | ViaSave bool mouvement_stock

fun executer :: "operation \<Rightarrow> base \<Rightarrow> base" where
  "executer (ViaService idMouvement a) db = snd (creerMouvement_double idMouvement a db)"
| "executer (ViaSave isNew m) db = snd (mouvementStock_save_double isNew m db)"

definition executerTout :: "operation list \<Rightarrow> base \<Rightarrow> base" where
  "executerTout ops db = foldl (\<lambda>d op. executer op d) db ops"

text \<open>
  The additions of an operation are exact: those of the hook for a saved movement; for the
  service, its own additions and those of the hook, which applies the quantity a second
  time to the product that the service has saved. A sequence of operations whose additions
  are all exact.
\<close>

fun exacte :: "operation \<Rightarrow> base \<Rightarrow> bool" where
  "exacte (ViaSave isNew m) db =
     (if isNew
      then (case produits db (ms_produit m) of
              None \<Rightarrow> True
            | Some p \<Rightarrow> additions_exactes (ms_depot m) (ms_quantite m) p)
      else True)"
| "exacte (ViaService idMouvement a) db =
     (case (dm_produitId a, dm_depotId a, dm_quantite a) of
        (Some produitId, Some depotId, Some quantite) \<Rightarrow>
          (case produits db produitId of
             None \<Rightarrow> True
           | Some p \<Rightarrow>
               additions_exactes depotId quantite p
               \<and> additions_exactes depotId quantite (apresAjout depotId quantite p))
      | _ \<Rightarrow> True)"

fun exactes :: "operation list \<Rightarrow> base \<Rightarrow> bool" where
  "exactes [] db = True"
| "exactes (op # ops) db = (exacte op db \<and> exactes ops (executer op db))"

text \<open>A product with 10 units, all in warehouse 1, and movements against it.\<close>

definition produit_exemple :: produit where
  "produit_exemple =
     \<lparr>p_designation = ''Riz 50kg'', p_gestionStock = True, p_quantiteEnStock = 10,
      p_stockParDepot = [\<lparr>sd_depot = 1, sd_quantite = 10\<rparr>], p_prixAchat = 5\<rparr>"

definition base_stock :: base where
  "base_stock = base_vide\<lparr>produits := [1 \<mapsto> produit_exemple]\<rparr>"

definition bon_exemple :: document_source where
  "bon_exemple = \<lparr>ds_id = 30, ds_modelName = ''Vente'', ds_numero = Some ''BL-1'',
     ds_numeroVente = None, ds_numeroAchat = None\<rparr>"

definition donnees_sortie :: "nat \<Rightarrow> number \<Rightarrow> donnees_mouvement" where
  "donnees_sortie depotId quantite =
     \<lparr>dm_produitId = Some 1, dm_depotId = Some depotId, dm_quantite = Some quantite,
      dm_typeMouvement = Some ''SORTIE_VENTE'', dm_documentLie = Some bon_exemple,
      dm_userId = Some 9\<rparr>"



definition donnees_entree :: "nat \<Rightarrow> number \<Rightarrow> donnees_mouvement" where
  "donnees_entree depotId quantite =
     (donnees_sortie depotId quantite)\<lparr>dm_typeMouvement := Some ''ENTREE_ACHAT''\<rparr>"


text \<open>
  A product without stock, and inbound movements of fractional quantities into its
  warehouses: 3.3 into warehouse 1, 2.2 into warehouse 2, 1.1 into warehouse 1.
\<close>

definition produit_vide :: produit where
  "produit_vide = produit_exemple\<lparr>p_quantiteEnStock := 0, p_stockParDepot := []\<rparr>"

definition base_stock_vide :: base where
  "base_stock_vide = base_vide\<lparr>produits := [1 \<mapsto> produit_vide]\<rparr>"

definition mouvement_entree :: "nat \<Rightarrow> nat \<Rightarrow> number \<Rightarrow> mouvement_stock" where
  "mouvement_entree idMouvement depotId quantite =
     \<lparr>ms_id = idMouvement, ms_produit = 1, ms_depot = depotId, ms_quantite = quantite,
      ms_typeMouvement = ''ENTREE_ACHAT'',
      ms_documentLie = \<lparr>dl_id = 31, dl_type = ''Achat'', dl_numero = Some ''ACH-1''\<rparr>,
      ms_coutUnitaire = 5, ms_valeurMouvement = None, ms_realisePar = 9\<rparr>"

definition entrees_fractionnaires :: "operation list" where
  "entrees_fractionnaires =
     [ViaSave True (mouvement_entree 41 1 (fl (33 / 10))),
      ViaSave True (mouvement_entree 42 2 (fl (22 / 10))),
      ViaSave True (mouvement_entree 43 1 (fl (11 / 10)))]"

text \<open>
  The \<open>montantPaye\<close> of the document that a payment points to, and the sum of the amounts
  of the validated payments that carry a given document identifier (the query of the hook
  selects by \<open>documentConcerne.documentId\<close> and \<open>statut\<close>).
\<close>

definition montantPayeDocument :: "modele_document \<Rightarrow> nat \<Rightarrow> base \<Rightarrow> number option" where
  "montantPayeDocument model documentId db =
     (case model of
        ModeleFacture \<Rightarrow> map_option f_montantPaye (factures db documentId)
      | ModeleAchat \<Rightarrow> map_option a_montantPaye (achats db documentId))"





section \<open>Lemmas on rounding\<close>

lemma floor_rat_numeral_div [simp]:
  "\<lfloor>numeral a / numeral b :: rat\<rfloor> = numeral a div numeral b"
  using floor_divide_of_int_eq [of "numeral a" "numeral b", where ?'a = rat] by simp

lemma floor_rat_neg_numeral_div [simp]:
  "\<lfloor>- (numeral a / numeral b) :: rat\<rfloor> = - numeral a div numeral b"
  using floor_divide_of_int_eq [of "- numeral a" "numeral b", where ?'a = rat] by simp

lemma floor_rat_one_div [simp]:
  "\<lfloor>1 / numeral b :: rat\<rfloor> = 1 div numeral b"
  using floor_divide_of_int_eq [of 1 "numeral b", where ?'a = rat] by simp

lemma floor_rat_neg_one_div [simp]:
  "\<lfloor>- (1 / numeral b) :: rat\<rfloor> = - 1 div numeral b"
  using floor_divide_of_int_eq [of "- 1" "numeral b", where ?'a = rat] by simp









section \<open>Lemmas on double-precision arithmetic\<close>

text \<open>The exponent that \<open>exposant\<close> computes is the binary exponent.\<close>

lemma exposant_bounds:
  assumes "0 < x"
  shows "2 powi exposant x \<le> x \<and> x < 2 powi (exposant x + 1)"
proof -
  obtain a b where q: "quotient_of x = (a, b)" by (cases "quotient_of x")
  have b: "0 < b" using q by (rule quotient_of_denom_pos)
  have x: "x = of_int a / of_int b" using q by (rule quotient_of_div)
  from assms b x have a: "0 < a" by (simp add: zero_less_divide_iff)
  define la lb where "la = bitlen a" and "lb = bitlen b"
  have la: "1 \<le> la" and lb: "1 \<le> lb"
    using a b bitlen_eq_zero_iff [of a] bitlen_eq_zero_iff [of b] bitlen_nonneg [of a]
      bitlen_nonneg [of b]
    unfolding la_def lb_def by linarith+
  have ba: "(2::int) ^ nat (la - 1) \<le> a" "a < 2 ^ nat la"
    using bitlen_bounds [OF a] unfolding la_def by auto
  have bb: "(2::int) ^ nat (lb - 1) \<le> b" "b < 2 ^ nat lb"
    using bitlen_bounds [OF b] unfolding lb_def by auto
  have ra: "(2::rat) powi (la - 1) \<le> of_int a" "of_int a < (2::rat) powi la"
  proof -
    have "(2::rat) powi (la - 1) = of_int (2 ^ nat (la - 1))"
      using la by (simp add: power_int_def)
    also have "\<dots> \<le> of_int a" using ba(1) by (simp only: of_int_le_iff)
    finally show "(2::rat) powi (la - 1) \<le> of_int a" .
    have "(2::rat) powi la = of_int (2 ^ nat la)"
      using la by (simp add: power_int_def)
    moreover have "(of_int a :: rat) < of_int (2 ^ nat la)"
      using ba(2) by (simp only: of_int_less_iff)
    ultimately show "of_int a < (2::rat) powi la" by simp
  qed
  have rb: "(2::rat) powi (lb - 1) \<le> of_int b" "of_int b < (2::rat) powi lb"
  proof -
    have "(2::rat) powi (lb - 1) = of_int (2 ^ nat (lb - 1))"
      using lb by (simp add: power_int_def)
    also have "\<dots> \<le> of_int b" using bb(1) by (simp only: of_int_le_iff)
    finally show "(2::rat) powi (lb - 1) \<le> of_int b" .
    have "(2::rat) powi lb = of_int (2 ^ nat lb)"
      using lb by (simp add: power_int_def)
    moreover have "(of_int b :: rat) < of_int (2 ^ nat lb)"
      using bb(2) by (simp only: of_int_less_iff)
    ultimately show "of_int b < (2::rat) powi lb" by simp
  qed
  have pb: "(0::rat) < of_int b" using b by simp
  have p1: "(0::rat) < 2 powi (lb - 1)" and p2: "(0::rat) < 2 powi lb" by simp_all
  have up: "x < 2 powi (la - lb + 1)"
  proof -
    have "x < 2 powi la / of_int b"
      unfolding x using ra(2) pb by (simp add: divide_strict_right_mono)
    also have "\<dots> \<le> 2 powi la / 2 powi (lb - 1)"
    proof (rule divide_left_mono)
      show "2 powi (lb - 1) \<le> rat_of_int b" by (rule rb(1))
      show "(0::rat) \<le> 2 powi la" by simp
      show "0 < rat_of_int b * 2 powi (lb - 1)" using pb p1 by (rule mult_pos_pos)
    qed
    also have "\<dots> = 2 powi (la - (lb - 1))"
      by (simp add: power_int_diff)
    finally show ?thesis by (simp add: algebra_simps)
  qed
  have lo: "2 powi (la - lb - 1) < x"
  proof -
    have "(2::rat) powi (la - lb - 1) = 2 powi ((la - 1) - lb)" by (simp add: algebra_simps)
    also have "\<dots> = 2 powi (la - 1) / 2 powi lb"
      by (simp add: power_int_diff)
    also have "\<dots> < 2 powi (la - 1) / of_int b"
      using rb(2) pb by (intro divide_strict_left_mono) simp_all
    also have "\<dots> \<le> x"
      unfolding x using ra(1) pb by (simp add: divide_right_mono)
    finally show ?thesis .
  qed
  show ?thesis
  proof (cases "2 powi (la - lb) \<le> x")
    case True
    then have "exposant x = la - lb"
      using q by (simp add: exposant_def Let_def la_def lb_def)
    with True up show ?thesis by simp
  next
    case False
    then have "exposant x = la - lb - 1"
      using q by (simp add: exposant_def Let_def la_def lb_def)
    with False lo show ?thesis by simp
  qed
qed

lemma exposant_unique:
  assumes "2 powi e \<le> x" "x < 2 powi (e + 1)"
  shows "exposant x = e"
proof -
  have pos: "0 < x"
  proof -
    have "(0::rat) < 2 powi e" by simp
    with assms(1) show ?thesis by linarith
  qed
  note b = exposant_bounds [OF pos]
  have "\<not> exposant x < e"
  proof
    assume "exposant x < e"
    then have "exposant x + 1 \<le> e" by simp
    then have "(2::rat) powi (exposant x + 1) \<le> 2 powi e"
      by (intro power_int_increasing) simp_all
    with b assms(1) show False by simp
  qed
  moreover have "\<not> e < exposant x"
  proof
    assume "e < exposant x"
    then have "e + 1 \<le> exposant x" by simp
    then have "(2::rat) powi (e + 1) \<le> 2 powi exposant x"
      by (intro power_int_increasing) simp_all
    with b assms(2) show False by simp
  qed
  ultimately show ?thesis by simp
qed

text \<open>
  With its exponent given, the double nearest to a number is found by evaluation of
  \<open>fl_avec\<close>.
\<close>

lemma fl_eq_fl_avec:
  assumes "x \<noteq> 0" "2 powi e \<le> \<bar>x\<bar>" "\<bar>x\<bar> < 2 powi (e + 1)"
  shows "fl x = fl_avec e x"
  using assms exposant_unique [of e "\<bar>x\<bar>"] by (simp add: fl_def)

lemma fl_0 [simp]: "fl 0 = 0"
  by (simp add: fl_def)

lemma roundEven_of_int [simp]: "roundEven (of_int n) = n"
  by (simp add: roundEven_def)

text \<open>An integer below \<open>2^53\<close> in absolute value is a double.\<close>

lemma fl_of_int:
  assumes "\<bar>k\<bar> < 2 ^ 53"
  shows "fl (of_int k) = of_int k"
proof (cases "k = 0")
  case True
  then show ?thesis by simp
next
  case False
  define x :: rat where "x = of_int k"
  define e where "e = exposant \<bar>x\<bar>"
  have x0: "x \<noteq> 0" using False by (simp add: x_def)
  then have pos: "0 < \<bar>x\<bar>" by simp
  from exposant_bounds [OF pos]
  have lo: "2 powi e \<le> \<bar>x\<bar>" and hi: "\<bar>x\<bar> < 2 powi (e + 1)"
    by (simp_all add: e_def)
  have ax: "\<bar>x\<bar> = of_int \<bar>k\<bar>" by (simp add: x_def)
  have one: "1 \<le> \<bar>x\<bar>"
  proof -
    from False have "1 \<le> \<bar>k\<bar>" by simp
    then have "(of_int 1 :: rat) \<le> of_int \<bar>k\<bar>" by (simp only: of_int_le_iff)
    then show ?thesis by (simp add: ax)
  qed
  have e0: "0 \<le> e"
  proof (rule ccontr)
    assume "\<not> 0 \<le> e"
    then have "e + 1 \<le> 0" by simp
    then have "(2::rat) powi (e + 1) \<le> 2 powi 0"
      by (intro power_int_increasing) simp_all
    with hi one show False by simp
  qed
  have e52: "e \<le> 52"
  proof (rule ccontr)
    assume "\<not> e \<le> 52"
    then have "53 \<le> e" by simp
    then have "(2::rat) powi 53 \<le> 2 powi e"
      by (intro power_int_increasing) simp_all
    with lo have "(2::rat) powi 53 \<le> \<bar>x\<bar>" by simp
    moreover have "(2::rat) powi 53 = of_int (2 ^ 53)" by (simp add: power_int_def)
    ultimately have "(of_int (2 ^ 53) :: rat) \<le> of_int \<bar>k\<bar>" by (simp add: ax)
    then have "(2::int) ^ 53 \<le> \<bar>k\<bar>" by (simp only: of_int_le_iff)
    with assms show False by simp
  qed
  define n where "n = nat (52 - e)"
  have q: "(2::rat) powi (max e (- 1022) - 52) = inverse (2 ^ n)"
  proof (cases "e = 52")
    case True
    then show ?thesis by (simp add: n_def)
  next
    case False
    with e52 have "e - 52 < 0" by simp
    moreover have "max e (- 1022) = e" using e0 by simp
    ultimately show ?thesis
      by (simp add: power_int_def n_def power_one_over inverse_eq_divide)
  qed
  have quot: "\<bar>x\<bar> / inverse (2 ^ n) = of_int (\<bar>k\<bar> * 2 ^ n)"
    by (simp add: ax divide_inverse)
  have re: "roundEven (\<bar>x\<bar> / inverse (2 ^ n)) = \<bar>k\<bar> * 2 ^ n"
    unfolding quot by (rule roundEven_of_int)
  have "fl x = fl_avec e x" using x0 by (simp add: fl_def e_def)
  also have "\<dots> = sgn x * (of_int (roundEven (\<bar>x\<bar> / inverse (2 ^ n))) * inverse (2 ^ n))"
    by (simp only: fl_avec_def Let_def q)
  also have "\<dots> = sgn x * (of_int (\<bar>k\<bar> * 2 ^ n) * inverse (2 ^ n))"
    by (simp only: re)
  also have "\<dots> = sgn x * \<bar>x\<bar>" by (simp add: ax)
  also have "\<dots> = x" by (simp add: sgn_mult_abs)
  finally show ?thesis by (simp add: x_def)
qed

lemma fl_numeral [simp]: "numeral n < (2::int) ^ 53 \<Longrightarrow> fl (numeral n) = numeral n"
  using fl_of_int [of "numeral n"] by simp

lemma fl_neg_numeral [simp]: "numeral n < (2::int) ^ 53 \<Longrightarrow> fl (- numeral n) = - numeral n"
  using fl_of_int [of "- numeral n"] by simp

lemma fl_1 [simp]: "fl 1 = 1"
  using fl_of_int [of 1] by simp


section \<open>Claim C9: the rounding rule\<close>






section \<open>Claim C5: weighted-average unit cost\<close>

text \<open>
  C5 says that \<open>calculerNouveauCump\<close> returns
  \<open>round2((priorTotalCost + inboundQty * inboundUnitCost) / (priorQty + inboundQty))\<close>.
  For a prior quantity of 40 at total cost 23 and no inbound quantity, the quotient is
  \<open>0.575\<close>, which rounds to \<open>0.58\<close>. The code divides in double arithmetic, which gives
  the double below \<open>0.575\<close>, multiplies it by 100, which gives \<open>57.49999999999999\<close>, and
  returns \<open>0.57\<close>. The example of the claim (10 units at total cost 1000, 5 inbound units
  at 120) does give \<open>106.67\<close>.
\<close>

theorem calculerNouveauCump_float:
  "calculerNouveauCump (Some 40) (Some 23) (Some 0) (Some 0) = fl (57 / 100)
   \<and> spec_cump 40 23 0 0 = 58 / 100
   \<and> fl (57 / 100) \<noteq> fl (58 / 100)
   \<and> calculerNouveauCump (Some 10) (Some 1000) (Some 5) (Some 120) = fl (10667 / 100)"
proof -
  have q: "fl (23 / 40) = 2589569785738035 / 4503599627370496"
    using fl_eq_fl_avec [of "23 / 40" "- 1"] by (simp add: fl_avec_def roundEven_def Let_def)
  have pq: "fl (2589569785738035 / 4503599627370496 * 100) = 8092405580431359 / 140737488355328"
    using fl_eq_fl_avec [of "2589569785738035 / 4503599627370496 * 100" "5"] by (simp add: fl_avec_def roundEven_def Let_def)
  have v57: "fl (57 / 100) = 5134103575202365 / 9007199254740992"
    using fl_eq_fl_avec [of "57 / 100" "- 1"] by (simp add: fl_avec_def roundEven_def Let_def)
  have v58: "fl (58 / 100) = 5224175567749775 / 9007199254740992"
    using fl_eq_fl_avec [of "58 / 100" "- 1"] by (simp add: fl_avec_def roundEven_def Let_def)
  have q2: "fl (1600 / 15) = 7505999378950827 / 70368744177664"
    using fl_eq_fl_avec [of "1600 / 15" "6"] by (simp add: fl_avec_def roundEven_def Let_def)
  have pq2: "fl (7505999378950827 / 70368744177664 * 100) = 2932031007402667 / 274877906944"
    using fl_eq_fl_avec [of "7505999378950827 / 70368744177664 * 100" "13"] by (simp add: fl_avec_def roundEven_def Let_def)
  have r1: "roundFinancial_double (fl (23 / 40)) = fl (57 / 100)"
    unfolding roundFinancial_double_def PRECISION_def q pq by (simp add: mathRound_def)
  have r2: "roundFinancial_double (fl (1600 / 15)) = fl (10667 / 100)"
    unfolding roundFinancial_double_def PRECISION_def q2 pq2 by (simp add: mathRound_def)
  have c1: "calculerNouveauCump (Some 40) (Some 23) (Some 0) (Some 0)
              = roundFinancial_double (fl (23 / 40))"
    by (simp add: calculerNouveauCump_def orZero_def Let_def)
  have c2: "calculerNouveauCump (Some 10) (Some 1000) (Some 5) (Some 120)
              = roundFinancial_double (fl (1600 / 15))"
    by (simp add: calculerNouveauCump_def orZero_def Let_def)
  have s: "spec_cump 40 23 0 0 = 58 / 100"
    by (simp add: spec_cump_def roundHalfAway_def)
  have n: "fl (57 / 100) \<noteq> fl (58 / 100)"
    unfolding v57 v58 by simp
  from c1 c2 r1 r2 s n show ?thesis by simp
qed


section \<open>Claim C6: document totals\<close>

lemma roundFinancial_double_0 [simp]: "roundFinancial_double 0 = 0"
  by (simp add: roundFinancial_double_def mathRound_def PRECISION_def)

text \<open>
  C6 says that the tax of a line is
  \<open>round2((lineExTax - discountAmount) * taxRatePercent / 100)\<close>. For one unit at
  \<open>1.25\<close> without a discount and a tax rate of 18 percent this is \<open>round2(0.225) = 0.23\<close>.
  The code computes \<open>18 / 100\<close>, then \<open>1.25 * 0.18\<close>, which is the double
  \<open>0.22499999999999998\<close>, then its product with 100, \<open>22.499999999999996\<close>, and returns
  the tax \<open>0.22\<close> and the total \<open>1.47\<close>. The example of the claim (3 units at 1000,
  discount 10 percent, tax 18 percent) does give 3000, 300, 486 and 3186.
\<close>

theorem calculerTotauxDocument_float:
  "calculerTotauxDocument (Some [ligne_flottante])
     = \<lparr>totalHT = 5 / 4, totalRemise = 0, totalTVA = fl (22 / 100), totalTTC = fl (147 / 100)\<rparr>
   \<and> spec_lineExTax ligne_flottante = 5 / 4
   \<and> spec_discountAmount ligne_flottante = 0
   \<and> spec_taxAmount ligne_flottante = 23 / 100
   \<and> fl (22 / 100) \<noteq> fl (23 / 100)
   \<and> calculerTotauxDocument (Some [ligne_exemple])
       = \<lparr>totalHT = 3000, totalRemise = 300, totalTVA = 486, totalTTC = 3186\<rparr>"
proof -
  have t: "fl (9 / 50) = 3242591731706757 / 18014398509481984"
    using fl_eq_fl_avec [of "9 / 50" "- 3"] by (simp add: fl_avec_def roundEven_def Let_def)
  have u: "fl (16212958658533785 / 72057594037927936) = 2026619832316723 / 9007199254740992"
    using fl_eq_fl_avec [of "16212958658533785 / 72057594037927936" "- 3"] by (simp add: fl_avec_def roundEven_def Let_def)
  have pu: "fl (50665495807918075 / 2251799813685248) = 6333186975989759 / 281474976710656"
    using fl_eq_fl_avec [of "50665495807918075 / 2251799813685248" "4"] by (simp add: fl_avec_def roundEven_def Let_def)
  have v22: "fl (11 / 50) = 7926335344172073 / 36028797018963968"
    using fl_eq_fl_avec [of "11 / 50" "- 3"] by (simp add: fl_avec_def roundEven_def Let_def)
  have v22i: "fl (7926335344172073 / 36028797018963968) = 7926335344172073 / 36028797018963968"
    using fl_eq_fl_avec [of "7926335344172073 / 36028797018963968" "- 3"] by (simp add: fl_avec_def roundEven_def Let_def)
  have s: "fl (52962331617877033 / 36028797018963968) = 6620291452234629 / 4503599627370496"
    using fl_eq_fl_avec [of "52962331617877033 / 36028797018963968" "0"] by (simp add: fl_avec_def roundEven_def Let_def)
  have p22: "fl (198158383604301825 / 9007199254740992) = 22"
    using fl_eq_fl_avec [of "198158383604301825 / 9007199254740992" "4"] by (simp add: fl_avec_def roundEven_def Let_def)
  have ps: "fl (165507286305865725 / 1125899906842624) = 147"
    using fl_eq_fl_avec [of "165507286305865725 / 1125899906842624" "7"] by (simp add: fl_avec_def roundEven_def Let_def)
  have v147: "fl (147 / 100) = 6620291452234629 / 4503599627370496"
    using fl_eq_fl_avec [of "147 / 100" "0"] by (simp add: fl_avec_def roundEven_def Let_def)
  have v23: "fl (23 / 100) = 8286623314361713 / 36028797018963968"
    using fl_eq_fl_avec [of "23 / 100" "- 3"] by (simp add: fl_avec_def roundEven_def Let_def)
  have d: "fl (1 / 10) = 3602879701896397 / 36028797018963968"
    using fl_eq_fl_avec [of "1 / 10" "- 4"] by (simp add: fl_avec_def roundEven_def Let_def)
  have d3000: "fl (1351079888211148875 / 4503599627370496) = 300"
    using fl_eq_fl_avec [of "1351079888211148875 / 4503599627370496" "8"] by (simp add: fl_avec_def roundEven_def Let_def)
  have t2700: "fl (2188749418902060975 / 4503599627370496) = 486"
    using fl_eq_fl_avec [of "2188749418902060975 / 4503599627370496" "8"] by (simp add: fl_avec_def roundEven_def Let_def)
  have h: "fl (5 / 4) = 5 / 4"
    using fl_eq_fl_avec [of "5 / 4" "0"] by (simp add: fl_avec_def roundEven_def Let_def)
  note certs = h t u pu v22 v22i s p22 ps v147 d d3000 t2700
  have code: "calculerTotauxDocument (Some [ligne_flottante])
     = \<lparr>totalHT = 5 / 4, totalRemise = 0, totalTVA = fl (22 / 100), totalTTC = fl (147 / 100)\<rparr>"
    by (simp add: calculerTotauxDocument_def reduceLigne_def calculateDiscountAmount_def
          calculateTaxAmount_def parDefaut_def ligne_flottante_def remise_valeur_def
          remise_type_def orZero_def Let_def roundFinancial_double_def mathRound_def
          PRECISION_def certs)
  have spec: "spec_lineExTax ligne_flottante = 5 / 4" "spec_discountAmount ligne_flottante = 0"
    "spec_taxAmount ligne_flottante = 23 / 100"
    by (simp_all add: spec_lineExTax_def spec_discountAmount_def spec_taxAmount_def
          ligne_flottante_def remise_valeur_def remise_type_def orZero_def roundHalfAway_def)
  have n: "fl (22 / 100) \<noteq> fl (23 / 100)"
    by (simp add: v22 v23)
  have example: "calculerTotauxDocument (Some [ligne_exemple])
       = \<lparr>totalHT = 3000, totalRemise = 300, totalTVA = 486, totalTTC = 3186\<rparr>"
    by (simp add: calculerTotauxDocument_def reduceLigne_def calculateDiscountAmount_def
          calculateTaxAmount_def parDefaut_def ligne_exemple_def remise_valeur_def
          remise_type_def orZero_def Let_def roundFinancial_double_def mathRound_def
          PRECISION_def certs)
  from code spec n example show ?thesis by simp
qed


section \<open>Claim C4: allocation of a payment\<close>










section \<open>Claim C1: the balance of a posted entry\<close>

lemma ecriture_save_invalide:
  "ecriture_valider e \<noteq> [] \<Longrightarrow>
   ecriture_save e db = (Inl (SchemaValidation (ecriture_valider e)), db)"
  by (cases "ecriture_valider e") (simp_all add: ecriture_save_def)

lemma ecriture_valider_sans_total:
  "''totalDebit'' \<in> set (ecriture_valider (data\<lparr>e_totalDebit := None\<rparr>))"
  by (simp add: ecriture_valider_def)

lemma ecriture_valider_exemple:
  "ecriture_valider ecriture_exemple = [''totalDebit'', ''totalCredit'']"
  "ecriture_valider ecriture_desequilibree = [''totalDebit'', ''totalCredit'']"
  "ecriture_valider ecriture_avec_totaux = []"
  by (simp_all add: ecriture_valider_def ecriture_exemple_def ecriture_desequilibree_def
        ecriture_avec_totaux_def blanc_def)

lemma ecriture_preSave_exemple:
  "ecriture_preSave ecriture_exemple
     = Inr (ecriture_exemple\<lparr>e_totalDebit := Some 118, e_totalCredit := Some 118\<rparr>)"
  "ecriture_preSave ecriture_avec_totaux
     = Inr (ecriture_exemple\<lparr>e_totalDebit := Some 118, e_totalCredit := Some 118\<rparr>)"
  by (simp_all add: ecriture_preSave_def cumulerMouvement_def ecriture_exemple_def
        ecriture_avec_totaux_def orZero_def mathRound_def Let_def)

text \<open>
  C1 says that \<open>_creerEcriture\<close> persists an entry whose rounded debit and credit totals
  are equal and not zero, and that it fails reporting both totals when they differ. The
  schema declares \<open>totalDebit\<close> and \<open>totalCredit\<close> as required, only the pre-save hook
  sets them, and the validation runs before the hook. So every posting whose data carry
  no \<open>totalDebit\<close> is refused by the validation, the database unchanged: the balanced
  example entry (118 against 100 + 18), which the hook alone would accept with both totals
  118, is not persisted, and the unbalanced one fails with the same validation error, which
  reports no total. An entry whose data carry both totals, whatever their values, reaches
  the hook and is persisted with the totals that the hook computes.
\<close>

theorem creerEcriture_required_totals:
  "(\<exists>chemins. creerEcriture (data\<lparr>e_totalDebit := None\<rparr>) db
                  = (Inl (SchemaValidation chemins), db)
               \<and> ''totalDebit'' \<in> set chemins)
   \<and> creerEcriture ecriture_exemple base_vide
       = (Inl (SchemaValidation [''totalDebit'', ''totalCredit'']), base_vide)
   \<and> ecriture_preSave ecriture_exemple
       = Inr (ecriture_exemple\<lparr>e_totalDebit := Some 118, e_totalCredit := Some 118\<rparr>)
   \<and> creerEcriture ecriture_desequilibree base_vide
       = (Inl (SchemaValidation [''totalDebit'', ''totalCredit'']), base_vide)
   \<and> creerEcriture ecriture_avec_totaux base_vide
       = (Inr (ecriture_exemple\<lparr>e_totalDebit := Some 118, e_totalCredit := Some 118\<rparr>),
          base_vide\<lparr>ecritures :=
            [ecriture_exemple\<lparr>e_totalDebit := Some 118, e_totalCredit := Some 118\<rparr>]\<rparr>)"
proof -
  have ne: "ecriture_valider (data\<lparr>e_totalDebit := None\<rparr>) \<noteq> []"
    using ecriture_valider_sans_total [of data] by auto
  have general: "\<exists>chemins. creerEcriture (data\<lparr>e_totalDebit := None\<rparr>) db
                  = (Inl (SchemaValidation chemins), db)
               \<and> ''totalDebit'' \<in> set chemins"
    using ecriture_valider_sans_total [of data]
    by (simp add: creerEcriture_def ecriture_save_invalide [OF ne])
  have a: "creerEcriture ecriture_exemple base_vide
       = (Inl (SchemaValidation [''totalDebit'', ''totalCredit'']), base_vide)"
    by (simp add: creerEcriture_def ecriture_save_invalide ecriture_valider_exemple)
  have b: "creerEcriture ecriture_desequilibree base_vide
       = (Inl (SchemaValidation [''totalDebit'', ''totalCredit'']), base_vide)"
    by (simp add: creerEcriture_def ecriture_save_invalide ecriture_valider_exemple)
  have c: "creerEcriture ecriture_avec_totaux base_vide
       = (Inr (ecriture_exemple\<lparr>e_totalDebit := Some 118, e_totalCredit := Some 118\<rparr>),
          base_vide\<lparr>ecritures :=
            [ecriture_exemple\<lparr>e_totalDebit := Some 118, e_totalCredit := Some 118\<rparr>]\<rparr>)"
    by (simp add: creerEcriture_def ecriture_save_def ecriture_valider_exemple
          ecriture_preSave_exemple base_vide_def)
  from general a ecriture_preSave_exemple(1) b c show ?thesis by blast
qed


section \<open>Claim C7: an invoice is posted once\<close>



section \<open>Claim C2: a movement that would make stock negative\<close>

lemma creerMouvement_transaction_negative:
  assumes p: "produits db produitId = Some p" and g: "p_gestionStock p"
    and neg: "p_quantiteEnStock p + quantite < 0 \<or> quantiteDepot depotId p + quantite < 0"
  shows "\<exists>err. fst (creerMouvement_transaction idMouvement produitId depotId quantite typeMouvement
                      documentLie userId db) = Inl err"
proof (cases "trouverDepot depotId p")
  case None
  show ?thesis
  proof (cases "quantite > 0")
    case True
    with neg None have "p_quantiteEnStock p + quantite < 0"
      by (simp add: quantiteDepot_def)
    with p g None True show ?thesis
      by (simp add: creerMouvement_transaction_def trouverDepot_def Let_def)
  next
    case False
    with p g None show ?thesis
      by (simp add: creerMouvement_transaction_def trouverDepot_def Let_def)
  qed
next
  case (Some d)
  with neg have "p_quantiteEnStock p + quantite < 0 \<or> sd_quantite d + quantite < 0"
    by (simp add: quantiteDepot_def)
  with p g Some show ?thesis
    by (auto simp: creerMouvement_transaction_def trouverDepot_def Let_def)
qed

lemma creerMouvement_transaction_found_negative:
  assumes p: "produits db produitId = Some p" and g: "p_gestionStock p"
    and d: "trouverDepot depotId p = Some d"
    and neg: "p_quantiteEnStock p + quantite < 0 \<or> quantiteDepot depotId p + quantite < 0"
  shows "fst (creerMouvement_transaction idMouvement produitId depotId quantite typeMouvement
                documentLie userId db) = Inl InsufficientStock"
proof -
  from neg d have "p_quantiteEnStock p + quantite < 0 \<or> sd_quantite d + quantite < 0"
    by (simp add: quantiteDepot_def)
  with p g d show ?thesis
    by (auto simp: creerMouvement_transaction_def trouverDepot_def Let_def)
qed

lemma creerMouvement_erreur:
  assumes "dm_produitId a = Some produitId" "dm_depotId a = Some depotId"
    "dm_quantite a = Some quantite" "dm_typeMouvement a = Some typeMouvement"
    "dm_documentLie a = Some documentLie" "dm_userId a = Some userId"
    "quantite \<noteq> 0" "typeMouvement \<noteq> []"
    "fst (creerMouvement_transaction idMouvement produitId depotId quantite typeMouvement
            documentLie userId db) = Inl err"
  shows "creerMouvement idMouvement a db = (Inl err, db)"
  using assms
  by (cases "creerMouvement_transaction idMouvement produitId depotId quantite typeMouvement
            documentLie userId db")
     (simp add: creerMouvement_def)

lemma creerMouvement_donnees_manquantes:
  assumes "dm_quantite a = Some 0 \<or> dm_typeMouvement a = None \<or> dm_typeMouvement a = Some []
           \<or> dm_documentLie a = None \<or> dm_userId a = None"
  shows "creerMouvement idMouvement a db = (Inl MissingData, db)"
  using assms by (auto simp: creerMouvement_def split: option.splits)

text \<open>
  C2: when the signed quantity of a movement passed to \<open>_creerMouvement\<close> would make the
  total quantity of the product or its quantity in the target warehouse negative, the
  call fails and returns the database unchanged: no movement is recorded and no quantity
  changes. When the product has a record for the warehouse and the arguments are
  complete, the error is the insufficient-stock error. The product is one whose stock is
  managed: for any other product the service applies no quantity at all (it returns
  \<open>null\<close> before the update).
\<close>

theorem creerMouvement_negative_fails:
  assumes a: "dm_produitId a = Some produitId" "dm_depotId a = Some depotId"
      "dm_quantite a = Some quantite"
    and p: "produits db produitId = Some p" and g: "p_gestionStock p"
    and neg: "p_quantiteEnStock p + quantite < 0 \<or> quantiteDepot depotId p + quantite < 0"
  shows "(\<exists>err. creerMouvement idMouvement a db = (Inl err, db))
       \<and> (quantite \<noteq> 0 \<and> trouverDepot depotId p \<noteq> None
          \<and> (\<exists>t. dm_typeMouvement a = Some t \<and> t \<noteq> []) \<and> dm_documentLie a \<noteq> None
          \<and> dm_userId a \<noteq> None
          \<longrightarrow> creerMouvement idMouvement a db = (Inl InsufficientStock, db))"
proof (cases "quantite = 0 \<or> dm_typeMouvement a = None \<or> dm_typeMouvement a = Some []
           \<or> dm_documentLie a = None \<or> dm_userId a = None")
  case True
  with a have "creerMouvement idMouvement a db = (Inl MissingData, db)"
    by (intro creerMouvement_donnees_manquantes) auto
  with True show ?thesis by auto
next
  case False
  then obtain t doc u where rest: "dm_typeMouvement a = Some t" "t \<noteq> []"
      "dm_documentLie a = Some doc" "dm_userId a = Some u" "quantite \<noteq> 0"
    by auto
  from creerMouvement_transaction_negative [OF p g neg, of idMouvement t doc u]
  obtain err where
    "fst (creerMouvement_transaction idMouvement produitId depotId quantite t doc u db) = Inl err"
    by blast
  from creerMouvement_erreur [OF a rest(1,3,4,5,2) this]
  have first: "\<exists>err. creerMouvement idMouvement a db = (Inl err, db)"
    by blast
  have second: "creerMouvement idMouvement a db = (Inl InsufficientStock, db)"
    if "trouverDepot depotId p \<noteq> None"
  proof -
    from that obtain d where d: "trouverDepot depotId p = Some d" by auto
    from creerMouvement_erreur [OF a rest(1,3,4,5,2)
        creerMouvement_transaction_found_negative [OF p g d neg, of idMouvement t doc u]]
    show ?thesis .
  qed
  from first second show ?thesis by blast
qed

text \<open>
  Witness for C2: an outbound movement of 20 units against the warehouse that holds the
  10 units of the product.
\<close>

theorem creerMouvement_negative_fails_witness:
  "produits base_stock 1 = Some produit_exemple \<and> p_gestionStock produit_exemple
   \<and> quantiteDepot 1 produit_exemple + (- 20) < 0
   \<and> creerMouvement 40 (donnees_sortie 1 (- 20)) base_stock = (Inl InsufficientStock, base_stock)"
proof -
  have p: "produits base_stock 1 = Some produit_exemple"
    by (simp add: base_stock_def)
  have g: "p_gestionStock produit_exemple"
    by (simp add: produit_exemple_def)
  have q: "quantiteDepot 1 produit_exemple = 10"
    by (simp add: quantiteDepot_def trouverDepot_def produit_exemple_def)
  have neg: "p_quantiteEnStock produit_exemple + (- 20) < 0
             \<or> quantiteDepot 1 produit_exemple + (- 20) < 0"
    using q by simp
  have d: "trouverDepot 1 produit_exemple \<noteq> None"
    by (simp add: trouverDepot_def produit_exemple_def)
  have a: "dm_produitId (donnees_sortie 1 (- 20)) = Some 1"
      "dm_depotId (donnees_sortie 1 (- 20)) = Some 1"
      "dm_quantite (donnees_sortie 1 (- 20)) = Some (- 20)"
    by (simp_all add: donnees_sortie_def)
  from creerMouvement_negative_fails [OF a p g neg, of 40] d
  have "creerMouvement 40 (donnees_sortie 1 (- 20)) base_stock = (Inl InsufficientStock, base_stock)"
    by (simp add: donnees_sortie_def)
  with p g q show ?thesis by simp
qed


section \<open>Claim C8: an outbound movement against a warehouse without a record\<close>









section \<open>Claim C10: the paid amount of a document\<close>


lemma updateDocumentSolde_paiements [simp]:
  "paiements (updateDocumentSolde doc db) = paiements db"
  by (simp add: updateDocumentSolde_def findByIdAndUpdate_montantPaye_def Let_def
        split: modele_document.splits option.splits)




lemma montantPayeDocument_paiements [simp]:
  "montantPayeDocument model documentId (db\<lparr>paiements := ps\<rparr>)
     = montantPayeDocument model documentId db"
  by (cases model) (simp_all add: montantPayeDocument_def)






end
